theory Spec2Isabelle
  imports Main
begin

section \<open>The GraphQL resolvers of the shop backend\<close>

text \<open>
  A shallow embedding of \<^verbatim>\<open>src/graphql/resolvers.js\<close>: the \<^verbatim>\<open>products\<close> query, which
  compiles a filter request into the arguments of a document-store read, and the six
  mutations on addresses, carts, wishlists and reviews.

  Conventions of the embedding.
  \<^item> A \<^verbatim>\<open>throw\<close> (or a rejected promise) is the left injection of a sum; a resolver
    returns its result together with the store after the call.
  \<^item> A collection is the list of its documents in insertion order. A document's identity
    (\<^verbatim>\<open>_id\<close>) is its position: \<^verbatim>\<open>findOne\<close> yields the position and the document,
    \<^verbatim>\<open>doc.save()\<close> of a loaded document writes at that position, \<^verbatim>\<open>save\<close> of a new
    document appends.
  \<^item> Identifiers that arrive in requests are JavaScript strings. The store keeps the
    text of an identifier and compares identifiers by value, casting the request's
    string; a loaded document presents a reference to a product as an \<^verbatim>\<open>ObjectId\<close>.
  \<^item> Record fields carry a prefix where two documents share a field name
    (\<^verbatim>\<open>user_id\<close>, \<^verbatim>\<open>products\<close>) or where the name is a constant of HOL
    (\<^verbatim>\<open>size\<close>, \<^verbatim>\<open>filter\<close>, \<^verbatim>\<open>limit\<close>).
\<close>

subsection \<open>JavaScript values\<close>

text \<open>
  An optional field of a GraphQL input object: the key is missing (\<^verbatim>\<open>undefined\<close>),
  explicitly \<^verbatim>\<open>null\<close>, or holds a value.
\<close>

datatype 'a jsopt = Undefined | Null | Val 'a

text \<open>
  A stored or destructured number that may be \<^verbatim>\<open>null\<close> is an \<open>int option\<close>
  (\<open>None\<close> is \<^verbatim>\<open>null\<close>). Quantities are GraphQL \<^verbatim>\<open>Int\<close>s; the embedding adds them as
  integers, which is what IEEE doubles do below \<open>2 ^ 53\<close>.
\<close>

text \<open>\<^verbatim>\<open>!q\<close> for a number or \<^verbatim>\<open>null\<close>: \<^verbatim>\<open>null\<close> and \<^verbatim>\<open>0\<close> are falsy.\<close>

fun falsy_num :: "int option \<Rightarrow> bool" where
  "falsy_num None = True"
| "falsy_num (Some n) = (n = 0)"

text \<open>\<^verbatim>\<open>ToNumber\<close> on a number or \<^verbatim>\<open>null\<close>: \<^verbatim>\<open>null\<close> converts to \<^verbatim>\<open>0\<close>.\<close>

fun to_number :: "int option \<Rightarrow> int" where
  "to_number None = 0"
| "to_number (Some n) = n"

text \<open>\<^verbatim>\<open>a + b\<close> on numbers or \<^verbatim>\<open>null\<close>: always a number.\<close>

definition js_add :: "int option \<Rightarrow> int option \<Rightarrow> int option" where
  "js_add a b = Some (to_number a + to_number b)"

text \<open>
  The destructuring default \<^verbatim>\<open>quantity = null\<close>: it replaces \<^verbatim>\<open>undefined\<close> only, and
  an explicit \<^verbatim>\<open>null\<close> stays \<^verbatim>\<open>null\<close>.
\<close>

fun default_null :: "int jsopt \<Rightarrow> int option" where
  "default_null Undefined = None"
| "default_null Null = None"
| "default_null (Val n) = Some n"

text \<open>
  The two kinds of value an identifier has inside a resolver: the string of a request,
  and the \<^verbatim>\<open>ObjectId\<close> object of a loaded document (with the text of the identifier).
\<close>

datatype jsval = JString string | JObjectId string

text \<open>
  \<^verbatim>\<open>v === s\<close> for a string \<^verbatim>\<open>s\<close>: strict equality converts nothing, so a string equals
  the same string and an object never equals a string.
\<close>

fun strict_eq_string :: "jsval \<Rightarrow> string \<Rightarrow> bool" where
  "strict_eq_string (JString a) s = (a = s)"
| "strict_eq_string (JObjectId a) s = False"

text \<open>\<^verbatim>\<open>Array.prototype.findIndex\<close>; \<open>None\<close> is the result \<^verbatim>\<open>-1\<close>.\<close>

fun findIndex :: "('a \<Rightarrow> bool) \<Rightarrow> 'a list \<Rightarrow> nat option" where
  "findIndex P [] = None"
| "findIndex P (x # xs) = (if P x then Some 0 else map_option Suc (findIndex P xs))"

subsection \<open>Errors, identity, documents and the store\<close>

text \<open>
  \<open>Unauthenticated\<close> is the \<^verbatim>\<open>GraphQLError\<close> with code \<^verbatim>\<open>UNAUTHENTICATED\<close>;
  \<open>ConstAssignment\<close> is the \<^verbatim>\<open>TypeError\<close> of an assignment to a \<^verbatim>\<open>const\<close> binding;
  \<open>InvalidObjectId\<close> is what \<^verbatim>\<open>new mongoose.Types.ObjectId(s)\<close> throws on a string that
  is not an identifier.
\<close>

datatype error = Unauthenticated | ConstAssignment | InvalidObjectId

record user =
  u_id :: string
  isInternal :: bool

record contextValue =
  ctx_user :: "user option"

record line_item =
  productId :: string
  quantity :: "int option"

record cart =
  c_user_id :: string
  c_products :: "line_item list"

record wishlist =
  w_user_id :: string
  w_products :: "string list"

record 's product_review =
  r_user_id :: string
  r_product_id :: string
  r_review :: string
  r_score :: 's

text \<open>
  The resolver never looks inside the address input; \<open>'a\<close> is the type of its fields.
\<close>

record 'a address =
  a_user_id :: string
  a_fields :: 'a

record ('a, 's) store =
  s_address :: "'a address list"
  s_cart :: "cart list"
  s_wishlist :: "wishlist list"
  s_product_review :: "'s product_review list"

text \<open>
  \<^verbatim>\<open>Model.findOne(cond)\<close>: the first document that satisfies the condition, with its
  position, or \<open>None\<close> for \<^verbatim>\<open>null\<close>. The condition is evaluated by the store, on values.
\<close>

definition findOne :: "('d \<Rightarrow> bool) \<Rightarrow> 'd list \<Rightarrow> (nat \<times> 'd) option" where
  "findOne P ds = map_option (\<lambda>i. (i, ds ! i)) (findIndex P ds)"

subsection \<open>Authentication guard\<close>

text \<open>
  \<^verbatim>\<open>checkAuthentication\<close> throws when \<^verbatim>\<open>context.user\<close> is falsy and returns nothing
  otherwise. The embedding hands back \<^verbatim>\<open>context.user\<close>, which every caller reads next.
\<close>

definition checkAuthentication :: "contextValue \<Rightarrow> error + user" where
  "checkAuthentication c =
     (case ctx_user c of None \<Rightarrow> Inl Unauthenticated | Some u \<Rightarrow> Inr u)"

subsection \<open>Mutations\<close>

definition addAddress ::
  "contextValue \<Rightarrow> 'a \<Rightarrow> ('a, 's) store \<Rightarrow> (error + 'a address) \<times> ('a, 's) store" where
  "addAddress c addr s =
     (case checkAuthentication c of
        Inl e \<Rightarrow> (Inl e, s)
      | Inr u \<Rightarrow>
          (let doc = \<lparr>a_user_id = u_id u, a_fields = addr\<rparr>
           in (Inr doc, s\<lparr>s_address := s_address s @ [doc]\<rparr>)))"

text \<open>The argument \<^verbatim>\<open>args.products\<close> of \<^verbatim>\<open>addProductToCart\<close>.\<close>

record cart_input =
  ci_product_id :: string
  ci_quantity :: "int jsopt"

text \<open>
  The cart schema (\<^verbatim>\<open>database/schemas\<close>) is not among the sources. The resolvers show
  what \<^verbatim>\<open>products.productId\<close> is: the \<^verbatim>\<open>cart\<close> query populates it, so it is a reference
  to a product, and the \<^verbatim>\<open>products\<close> query looks products up by
  \<^verbatim>\<open>new mongoose.Types.ObjectId(_id)\<close>, so product identifiers are \<^verbatim>\<open>ObjectId\<close>s. A
  loaded line item therefore presents \<^verbatim>\<open>productId\<close> as an \<^verbatim>\<open>ObjectId\<close>, while
  \<^verbatim>\<open>product_id\<close> is the request's string, and the test
  \<^verbatim>\<open>x.productId === product_id\<close> compares the two without any coercion. The field
  \<open>productId\<close> of a \<open>line_item\<close> is the text of the stored identifier, and a stored
  \<^verbatim>\<open>quantity\<close> is the number or \<^verbatim>\<open>null\<close> that was written.
\<close>

definition addProductToCart ::
  "contextValue \<Rightarrow> cart_input \<Rightarrow> ('a, 's) store \<Rightarrow> (error + cart) \<times> ('a, 's) store" where
  "addProductToCart c inp s =
     (case checkAuthentication c of
        Inl e \<Rightarrow> (Inl e, s)
      | Inr u \<Rightarrow>
          (let product_id = ci_product_id inp;
               qty = default_null (ci_quantity inp)
           in case findOne (\<lambda>d. c_user_id d = u_id u) (s_cart s) of
                Some (i, crt) \<Rightarrow>
                  (let ps = c_products crt;
                       crt' =
                         (case findIndex
                                 (\<lambda>x. strict_eq_string (JObjectId (productId x)) product_id)
                                 ps of
                            Some k \<Rightarrow>
                              crt\<lparr>c_products :=
                                ps[k := (ps ! k)\<lparr>quantity := js_add (quantity (ps ! k)) qty\<rparr>]\<rparr>
                          | None \<Rightarrow>
                              crt\<lparr>c_products :=
                                ps @ [\<lparr>productId = product_id, quantity = qty\<rparr>]\<rparr>)
                   in (Inr crt', s\<lparr>s_cart := (s_cart s)[i := crt']\<rparr>))
              | None \<Rightarrow>
                  (let crt = \<lparr>c_user_id = u_id u,
                              c_products =
                                [\<lparr>productId = product_id,
                                  quantity = (if falsy_num qty then Some 1 else qty)\<rparr>]\<rparr>
                   in (Inr crt, s\<lparr>s_cart := s_cart s @ [crt]\<rparr>))))"

text \<open>
  \<^verbatim>\<open>findOneAndUpdate(cond, { $pull: ... }, { new: true })\<close> without \<^verbatim>\<open>upsert\<close>: the
  first matching document is rewritten and returned as updated; with no match nothing is
  written and the result is \<^verbatim>\<open>null\<close>. \<^verbatim>\<open>$pull\<close> drops every array element that matches.
\<close>

definition removeProductFromCart ::
  "contextValue \<Rightarrow> string \<Rightarrow> ('a, 's) store \<Rightarrow> (error + cart option) \<times> ('a, 's) store" where
  "removeProductFromCart c product_id s =
     (case checkAuthentication c of
        Inl e \<Rightarrow> (Inl e, s)
      | Inr u \<Rightarrow>
          (case findOne (\<lambda>d. c_user_id d = u_id u) (s_cart s) of
             None \<Rightarrow> (Inr None, s)
           | Some (i, crt) \<Rightarrow>
               (let crt' = crt\<lparr>c_products :=
                             filter (\<lambda>x. productId x \<noteq> product_id) (c_products crt)\<rparr>
                in (Inr (Some crt'), s\<lparr>s_cart := (s_cart s)[i := crt']\<rparr>))))"

definition addProductToWishlist ::
  "contextValue \<Rightarrow> string \<Rightarrow> ('a, 's) store \<Rightarrow> (error + wishlist) \<times> ('a, 's) store" where
  "addProductToWishlist c product_id s =
     (case checkAuthentication c of
        Inl e \<Rightarrow> (Inl e, s)
      | Inr u \<Rightarrow>
          (case findOne (\<lambda>d. w_user_id d = u_id u) (s_wishlist s) of
             None \<Rightarrow>
               (let w = \<lparr>w_user_id = u_id u, w_products = [product_id]\<rparr>
                in (Inr w, s\<lparr>s_wishlist := s_wishlist s @ [w]\<rparr>))
           | Some (i, w) \<Rightarrow>
               (let w' = w\<lparr>w_products := w_products w @ [product_id]\<rparr>
                in (Inr w', s\<lparr>s_wishlist := (s_wishlist s)[i := w']\<rparr>))))"

definition removeProductFromWishlist ::
  "contextValue \<Rightarrow> string \<Rightarrow> ('a, 's) store \<Rightarrow> (error + wishlist option) \<times> ('a, 's) store" where
  "removeProductFromWishlist c product_id s =
     (case checkAuthentication c of
        Inl e \<Rightarrow> (Inl e, s)
      | Inr u \<Rightarrow>
          (case findOne (\<lambda>d. w_user_id d = u_id u) (s_wishlist s) of
             None \<Rightarrow> (Inr None, s)
           | Some (i, w) \<Rightarrow>
               (let w' = w\<lparr>w_products := filter (\<lambda>x. x \<noteq> product_id) (w_products w)\<rparr>
                in (Inr (Some w'), s\<lparr>s_wishlist := (s_wishlist s)[i := w']\<rparr>))))"

text \<open>The argument \<^verbatim>\<open>args.review\<close> of \<^verbatim>\<open>addProductReview\<close>.\<close>

record 's review_input =
  ri_review :: string
  ri_score :: 's
  ri_product_id :: string

definition addProductReview ::
  "contextValue \<Rightarrow> 's review_input \<Rightarrow> ('a, 's) store \<Rightarrow>
     (error + 's product_review) \<times> ('a, 's) store" where
  "addProductReview c inp s =
     (case checkAuthentication c of
        Inl e \<Rightarrow> (Inl e, s)
      | Inr u \<Rightarrow>
          (case findOne (\<lambda>d. r_user_id d = u_id u \<and> r_product_id d = ri_product_id inp)
                  (s_product_review s) of
             None \<Rightarrow>
               (let newReview =
                      \<lparr>r_user_id = u_id u, r_product_id = ri_product_id inp,
                       r_review = ri_review inp, r_score = ri_score inp\<rparr>
                in (Inr newReview,
                    s\<lparr>s_product_review := s_product_review s @ [newReview]\<rparr>))
           | Some (i, product_review) \<Rightarrow>
               (let product_review' =
                      product_review\<lparr>r_review := ri_review inp, r_score := ri_score inp\<rparr>
                in (Inr product_review',
                    s\<lparr>s_product_review := (s_product_review s)[i := product_review']\<rparr>))))"

subsection \<open>Reading the store\<close>

text \<open>
  The user's cart and wishlist, as the \<^verbatim>\<open>cart\<close> and \<^verbatim>\<open>wishlist\<close> queries find them
  (\<^verbatim>\<open>findOne({ user_id })\<close>, before any \<^verbatim>\<open>populate\<close>), and the reviews a user has
  written for a product.
\<close>

definition userCart :: "('a, 's) store \<Rightarrow> string \<Rightarrow> cart option" where
  "userCart s uid = map_option snd (findOne (\<lambda>d. c_user_id d = uid) (s_cart s))"

definition userWishlist :: "('a, 's) store \<Rightarrow> string \<Rightarrow> wishlist option" where
  "userWishlist s uid = map_option snd (findOne (\<lambda>d. w_user_id d = uid) (s_wishlist s))"

definition reviewsOf :: "('a, 's) store \<Rightarrow> string \<Rightarrow> string \<Rightarrow> 's product_review list" where
  "reviewsOf s uid pid =
     filter (\<lambda>d. r_user_id d = uid \<and> r_product_id d = pid) (s_product_review s)"

subsection \<open>The products query\<close>

text \<open>
  \<^verbatim>\<open>args.filter\<close>. The fields \<open>f_id\<close>, \<open>f_lim\<close>, \<open>f_strt\<close> and \<open>f_sortOption\<close> are
  the keys \<^verbatim>\<open>_id\<close>, \<^verbatim>\<open>limit\<close>, \<^verbatim>\<open>start\<close> and \<^verbatim>\<open>sort\<close>; the last three carry the
  names the resolver binds them to. \<open>'n\<close> is the type of prices. The GraphQL schema is
  not among the sources: \<^verbatim>\<open>size\<close>, \<^verbatim>\<open>color\<close> and \<^verbatim>\<open>code\<close> are taken to be strings,
  like \<^verbatim>\<open>name\<close>.
\<close>

record sort_option =
  so_field :: string
  so_order :: string

record 'n filter_input =
  f_id :: "string jsopt"
  f_categories :: "string list jsopt"
  f_size :: "string jsopt"
  f_color :: "string jsopt"
  f_minPrice :: "'n jsopt"
  f_maxPrice :: "'n jsopt"
  f_name :: "string jsopt"
  f_lim :: "int jsopt"
  f_strt :: "int jsopt"
  f_sortOption :: "sort_option jsopt"
  f_code :: "string jsopt"
  f_keywords :: "string list jsopt"

text \<open>
  The object \<^verbatim>\<open>filter\<close> the resolver builds: a key that was never assigned is \<open>None\<close>.
  \<open>pf_name\<close> holds \<^verbatim>\<open>$regex\<close> and \<^verbatim>\<open>$options\<close>, \<open>pf_categories\<close> and \<open>pf_keywords\<close>
  hold the array under \<^verbatim>\<open>$in\<close>, and in \<open>pf_price\<close> a bound that was never assigned is
  \<open>Undefined\<close>.
\<close>

record 'n price_clause =
  p_gte :: "'n jsopt"
  p_lte :: "'n jsopt"

record ('oid, 'n) product_filter =
  pf_id :: "'oid option"
  pf_name :: "(string \<times> string) option"
  pf_size :: "string option"
  pf_color :: "string option"
  pf_code :: "string option"
  pf_categories :: "'oid list option"
  pf_keywords :: "string list option"
  pf_price :: "'n price_clause option"

text \<open>What reaches the store: \<^verbatim>\<open>find(filter).limit(limit).skip(start).sort(sort)\<close>.\<close>

record ('oid, 'n) find_query =
  q_filter :: "('oid, 'n) product_filter"
  q_limit :: int
  q_skip :: int
  q_sort :: "(string \<times> int) list"

definition empty_filter :: "('oid, 'n) product_filter" where
  "empty_filter =
     \<lparr>pf_id = None, pf_name = None, pf_size = None, pf_color = None, pf_code = None,
      pf_categories = None, pf_keywords = None, pf_price = None\<rparr>"

text \<open>\<^verbatim>\<open>if (s)\<close> on an optional string: the string when it is truthy.\<close>

fun truthy_val :: "string jsopt \<Rightarrow> string option" where
  "truthy_val (Val s) = (if s = [] then None else Some s)"
| "truthy_val _ = None"

text \<open>\<^verbatim>\<open>xs && xs.length > 0\<close> on an optional array: the array when the test passes.\<close>

fun nonempty_arr :: "'a list jsopt \<Rightarrow> 'a list option" where
  "nonempty_arr (Val xs) = (if xs = [] then None else Some xs)"
| "nonempty_arr _ = None"

text \<open>
  The resolver, up to the call of the store. \<open>objectId\<close> stands for
  \<^verbatim>\<open>new mongoose.Types.ObjectId(s)\<close>, which belongs to a library: \<open>None\<close> where the
  constructor throws. The statements are mirrored in order: \<^verbatim>\<open>_id\<close>, \<^verbatim>\<open>name\<close>,
  \<^verbatim>\<open>size\<close>, \<^verbatim>\<open>color\<close>, \<^verbatim>\<open>code\<close>, \<^verbatim>\<open>categories\<close>, \<^verbatim>\<open>keywords\<close>, the price bounds,
  \<^verbatim>\<open>sort\<close>, and last the two assignments to the \<^verbatim>\<open>const\<close> bindings \<^verbatim>\<open>limit\<close> and
  \<^verbatim>\<open>start\<close>, each of which throws when it is reached.
\<close>

definition products ::
  "(string \<Rightarrow> 'oid option) \<Rightarrow> 'n filter_input option \<Rightarrow> error + ('oid, 'n) find_query" where
  "products objectId flt =
     (case flt of
        None \<Rightarrow> Inr \<lparr>q_filter = empty_filter, q_limit = 10, q_skip = 0, q_sort = []\<rparr>
      | Some a \<Rightarrow>
          (case (case truthy_val (f_id a) of
                   None \<Rightarrow> Inr empty_filter
                 | Some s \<Rightarrow>
                     (case objectId s of
                        None \<Rightarrow> Inl InvalidObjectId
                      | Some i \<Rightarrow> Inr (empty_filter\<lparr>pf_id := Some i\<rparr>))) of
             Inl e \<Rightarrow> Inl e
           | Inr filter1 \<Rightarrow>
               (let filter2 = (case truthy_val (f_name a) of
                                 None \<Rightarrow> filter1
                               | Some s \<Rightarrow> filter1\<lparr>pf_name := Some (s, ''i'')\<rparr>);
                    filter3 = (case truthy_val (f_size a) of
                                 None \<Rightarrow> filter2
                               | Some s \<Rightarrow> filter2\<lparr>pf_size := Some s\<rparr>);
                    filter4 = (case truthy_val (f_color a) of
                                 None \<Rightarrow> filter3
                               | Some s \<Rightarrow> filter3\<lparr>pf_color := Some s\<rparr>);
                    filter5 = (case truthy_val (f_code a) of
                                 None \<Rightarrow> filter4
                               | Some s \<Rightarrow> filter4\<lparr>pf_code := Some s\<rparr>)
                in case (case nonempty_arr (f_categories a) of
                           None \<Rightarrow> Inr filter5
                         | Some cs \<Rightarrow>
                             (case those (map objectId cs) of
                                None \<Rightarrow> Inl InvalidObjectId
                              | Some ids \<Rightarrow> Inr (filter5\<lparr>pf_categories := Some ids\<rparr>))) of
                     Inl e \<Rightarrow> Inl e
                   | Inr filter6 \<Rightarrow>
                       (let filter7 = (case nonempty_arr (f_keywords a) of
                                         None \<Rightarrow> filter6
                                       | Some ks \<Rightarrow> filter6\<lparr>pf_keywords := Some ks\<rparr>);
                            filter8 =
                              (if f_minPrice a \<noteq> Undefined \<or> f_maxPrice a \<noteq> Undefined
                               then
                                 (let price0 = \<lparr>p_gte = Undefined, p_lte = Undefined\<rparr>;
                                      price1 = (if f_minPrice a \<noteq> Undefined
                                                then price0\<lparr>p_gte := f_minPrice a\<rparr>
                                                else price0);
                                      price2 = (if f_maxPrice a \<noteq> Undefined
                                                then price1\<lparr>p_lte := f_maxPrice a\<rparr>
                                                else price1)
                                  in filter7\<lparr>pf_price := Some price2\<rparr>)
                               else filter7);
                            srt = (case f_sortOption a of
                                     Val so \<Rightarrow>
                                       [(so_field so,
                                         if so_order so = ''asc'' then 1 else - 1)]
                                   | _ \<Rightarrow> [])
                        in if f_lim a \<noteq> Undefined then Inl ConstAssignment
                           else if f_strt a \<noteq> Undefined then Inl ConstAssignment
                           else Inr \<lparr>q_filter = filter8, q_limit = 10, q_skip = 0,
                                     q_sort = srt\<rparr>))))"

text \<open>
  Both coercions of a request succeed: \<^verbatim>\<open>_id\<close>, when it is used, and every element of
  \<^verbatim>\<open>categories\<close>, when the array is used, are identifiers the constructor accepts.
\<close>

definition coercible :: "(string \<Rightarrow> 'oid option) \<Rightarrow> 'n filter_input \<Rightarrow> bool" where
  "coercible objectId a \<longleftrightarrow>
     (case truthy_val (f_id a) of None \<Rightarrow> True | Some s \<Rightarrow> objectId s \<noteq> None)
     \<and> (case nonempty_arr (f_categories a) of
          None \<Rightarrow> True
        | Some cs \<Rightarrow> list_all (\<lambda>c. objectId c \<noteq> None) cs)"

text \<open>A request object with no key set.\<close>

definition no_fields :: "'n filter_input" where
  "no_fields =
     \<lparr>f_id = Undefined, f_categories = Undefined, f_size = Undefined, f_color = Undefined,
      f_minPrice = Undefined, f_maxPrice = Undefined, f_name = Undefined,
      f_lim = Undefined, f_strt = Undefined, f_sortOption = Undefined,
      f_code = Undefined, f_keywords = Undefined\<rparr>"

text \<open>
  How the document store reads a price clause against a numeric price: \<^verbatim>\<open>$gte\<close> and
  \<^verbatim>\<open>$lte\<close> are inclusive, a missing bound does not restrict, and a \<^verbatim>\<open>null\<close> bound
  matches no number. A filter without the key \<^verbatim>\<open>price\<close> does not look at the price.
\<close>

fun gte_holds :: "'n::linorder jsopt \<Rightarrow> 'n \<Rightarrow> bool" where
  "gte_holds Undefined p = True"
| "gte_holds Null p = False"
| "gte_holds (Val m) p = (m \<le> p)"

fun lte_holds :: "'n::linorder jsopt \<Rightarrow> 'n \<Rightarrow> bool" where
  "lte_holds Undefined p = True"
| "lte_holds Null p = False"
| "lte_holds (Val m) p = (p \<le> m)"

definition price_matches :: "'n::linorder price_clause option \<Rightarrow> 'n \<Rightarrow> bool" where
  "price_matches pc p =
     (case pc of None \<Rightarrow> True | Some b \<Rightarrow> gte_holds (p_gte b) p \<and> lte_holds (p_lte b) p)"

text \<open>
  A 24-digit hexadecimal string is an identifier for every release of the constructor;
  \<open>hexObjectId\<close> accepts exactly these and is used for concrete runs.
\<close>

definition hexObjectId :: "string \<Rightarrow> string option" where
  "hexObjectId s =
     (if length s = 24 \<and> list_all (\<lambda>ch. ch \<in> set ''0123456789abcdefABCDEF'') s
      then Some s else None)"

subsection \<open>Sample data\<close>

text \<open>
  Two users and a store for concrete runs: \<open>u2\<close> has a cart, \<open>u1\<close> has a wishlist and
  has reviewed product \<open>p1\<close>. Addresses are plain strings here and scores are integers.
\<close>

definition alice :: user where
  "alice = \<lparr>u_id = ''u1'', isInternal = False\<rparr>"

definition bob :: user where
  "bob = \<lparr>u_id = ''u2'', isInternal = False\<rparr>"

definition sample_store :: "(string, int) store" where
  "sample_store =
     \<lparr>s_address = [],
      s_cart = [\<lparr>c_user_id = ''u2'',
                 c_products = [\<lparr>productId = ''p1'', quantity = Some 7\<rparr>]\<rparr>],
      s_wishlist = [\<lparr>w_user_id = ''u1'', w_products = [''p9'']\<rparr>],
      s_product_review =
        [\<lparr>r_user_id = ''u1'', r_product_id = ''p1'', r_review = ''fine'', r_score = 3\<rparr>]\<rparr>"

section \<open>Searching and updating collections\<close>

lemma findIndex_None_iff: "findIndex P xs = None \<longleftrightarrow> (\<forall>x \<in> set xs. \<not> P x)"
  by (induction xs) auto

lemma findIndex_never: "findIndex (\<lambda>x. False) xs = None"
  by (induction xs) simp_all

lemma findIndex_SomeD:
  "findIndex P xs = Some k \<Longrightarrow> k < length xs \<and> P (xs ! k) \<and> (\<forall>j < k. \<not> P (xs ! j))"
proof (induction xs arbitrary: k)
  case Nil
  then show ?case by simp
next
  case (Cons x xs)
  show ?case
  proof (cases "P x")
    case True
    with Cons.prems show ?thesis by simp
  next
    case False
    with Cons.prems obtain k' where k': "findIndex P xs = Some k'" "k = Suc k'"
      by auto
    from Cons.IH [OF k'(1)] False k'(2) show ?thesis
      by (auto simp: nth_Cons split: nat.splits)
  qed
qed

lemma findIndex_update:
  "findIndex P xs = Some k \<Longrightarrow> P y \<Longrightarrow> findIndex P (xs[k := y]) = Some k"
  by (induction xs arbitrary: k) (auto split: if_splits)

lemma findIndex_snoc_None:
  "findIndex P xs = None \<Longrightarrow>
     findIndex P (xs @ [y]) = (if P y then Some (length xs) else None)"
  by (induction xs) (auto split: if_splits)

lemma findIndex_append_Some:
  "findIndex P xs = Some k \<Longrightarrow> findIndex P (xs @ ys) = Some k"
  by (induction xs arbitrary: k) (auto split: if_splits)

lemma findOne_None_iff: "findOne P ds = None \<longleftrightarrow> (\<forall>d \<in> set ds. \<not> P d)"
  by (simp add: findOne_def findIndex_None_iff)

lemma findOne_SomeD:
  "findOne P ds = Some (i, d) \<Longrightarrow> i < length ds \<and> d = ds ! i \<and> P d \<and> findIndex P ds = Some i"
  by (auto simp: findOne_def dest: findIndex_SomeD)

lemma findOne_update:
  "findOne P ds = Some (i, d) \<Longrightarrow> P d' \<Longrightarrow> findOne P (ds[i := d']) = Some (i, d')"
  by (auto simp: findOne_def findIndex_update dest: findIndex_SomeD)

lemma findOne_snoc_new:
  "findOne P ds = None \<Longrightarrow> P d \<Longrightarrow> findOne P (ds @ [d]) = Some (length ds, d)"
  by (auto simp: findOne_def findIndex_snoc_None)


lemma filter_update_single:
  "i < length xs \<Longrightarrow> P (xs ! i) \<Longrightarrow> length (filter P xs) \<le> 1 \<Longrightarrow> P y \<Longrightarrow>
     filter P (xs[i := y]) = [y]"
proof (induction xs arbitrary: i)
  case Nil
  then show ?case by simp
next
  case (Cons x xs)
  show ?case
  proof (cases i)
    case 0
    with Cons.prems have "filter P xs = []" by simp
    with 0 Cons.prems show ?thesis by simp
  next
    case (Suc j)
    with Cons.prems have j: "j < length xs" "P (xs ! j)" by simp_all
    then have "xs ! j \<in> set (filter P xs)" by simp
    then have "filter P xs \<noteq> []" by force
    with Cons.prems(3) have nx: "\<not> P x" by (auto split: if_splits)
    with Cons.prems(3) have "length (filter P xs) \<le> 1" by simp
    from Cons.IH [OF j this Cons.prems(4)] nx Suc show ?thesis by simp
  qed
qed

lemma length_filter_update_same:
  "i < length xs \<Longrightarrow> P y = P (xs ! i) \<Longrightarrow>
     length (filter P (xs[i := y])) = length (filter P xs)"
  by (induction xs arbitrary: i) (auto simp: nth_Cons split: nat.splits)

section \<open>Unauthenticated calls\<close>

lemma checkAuthentication_None:
  "ctx_user c = None \<Longrightarrow> checkAuthentication c = Inl Unauthenticated"
  by (simp add: checkAuthentication_def)

lemma checkAuthentication_Some:
  "ctx_user c = Some u \<Longrightarrow> checkAuthentication c = Inr u"
  by (simp add: checkAuthentication_def)

text \<open>
  Claim C4. Each of the six mutations, called with a context that carries no user, fails
  with the \<open>Unauthenticated\<close> error and leaves the store exactly as it was.
\<close>

theorem unauthenticated_mutations_write_nothing:
  assumes "ctx_user c = None"
  shows "addAddress c addr s = (Inl Unauthenticated, s)
       \<and> addProductToCart c ci s = (Inl Unauthenticated, s)
       \<and> removeProductFromCart c pid s = (Inl Unauthenticated, s)
       \<and> addProductToWishlist c pid s = (Inl Unauthenticated, s)
       \<and> removeProductFromWishlist c pid s = (Inl Unauthenticated, s)
       \<and> addProductReview c ri s = (Inl Unauthenticated, s)"
  using assms
  by (simp add: checkAuthentication_None addAddress_def addProductToCart_def
      removeProductFromCart_def addProductToWishlist_def removeProductFromWishlist_def
      addProductReview_def)

text \<open>
  The same at a store that holds a cart, with concrete arguments: every call is refused
  and the cart is still there.
\<close>

theorem unauthenticated_mutations_write_nothing_witness:
  "ctx_user \<lparr>ctx_user = None\<rparr> = None
   \<and> (let s = \<lparr>s_address = [],
                s_cart = [\<lparr>c_user_id = ''u1'',
                           c_products = [\<lparr>productId = ''p1'', quantity = Some 2\<rparr>]\<rparr>],
                s_wishlist = [], s_product_review = ([] :: int product_review list)\<rparr>;
           c = \<lparr>ctx_user = None\<rparr>
       in addAddress c ''home'' s = (Inl Unauthenticated, s)
        \<and> addProductToCart c \<lparr>ci_product_id = ''p1'', ci_quantity = Val 1\<rparr> s
            = (Inl Unauthenticated, s)
        \<and> removeProductFromCart c ''p1'' s = (Inl Unauthenticated, s)
        \<and> addProductToWishlist c ''p1'' s = (Inl Unauthenticated, s)
        \<and> removeProductFromWishlist c ''p1'' s = (Inl Unauthenticated, s)
        \<and> addProductReview c \<lparr>ri_review = ''good'', ri_score = 4::int, ri_product_id = ''p1''\<rparr> s
            = (Inl Unauthenticated, s))"
proof -
  have h: "ctx_user \<lparr>ctx_user = None\<rparr> = None" by simp
  show ?thesis
    using unauthenticated_mutations_write_nothing [OF h,
        where addr = "''home''" and pid = "''p1''"
          and ci = "\<lparr>ci_product_id = ''p1'', ci_quantity = Val 1\<rparr>"
          and ri = "\<lparr>ri_review = ''good'', ri_score = 4::int, ri_product_id = ''p1''\<rparr>"
          and s = "\<lparr>s_address = [],
                s_cart = [\<lparr>c_user_id = ''u1'',
                           c_products = [\<lparr>productId = ''p1'', quantity = Some 2\<rparr>]\<rparr>],
                s_wishlist = [], s_product_review = ([] :: int product_review list)\<rparr>"]
    by (simp add: Let_def)
qed

section \<open>The cart\<close>

text \<open>
  The path of \<^verbatim>\<open>addProductToCart\<close> for a user who has a cart. The line-item test
  compares a loaded \<^verbatim>\<open>ObjectId\<close> with the request's string and never holds, so
  \<^verbatim>\<open>findIndex\<close> yields \<^verbatim>\<open>-1\<close> whatever the cart holds, and the call appends a line item.
  It carries the destructured quantity as it is, \<^verbatim>\<open>null\<close> when the request has none: the
  default \<^verbatim>\<open>!quantity ? 1 : quantity\<close> is applied only on the other path, where the cart
  document is created.
\<close>

lemma addProductToCart_existing_cart_new_item:
  assumes auth: "ctx_user c = Some u"
    and crt: "findOne (\<lambda>d. c_user_id d = u_id u) (s_cart s) = Some (i, crt)"
  shows "addProductToCart c inp s =
           (let crt' = crt\<lparr>c_products := c_products crt @
                          [\<lparr>productId = ci_product_id inp,
                            quantity = default_null (ci_quantity inp)\<rparr>]\<rparr>
            in (Inr crt', s\<lparr>s_cart := (s_cart s)[i := crt']\<rparr>))"
  using crt
  by (simp add: addProductToCart_def checkAuthentication_Some [OF auth] Let_def
      findIndex_never)

lemma addProductToCart_new_cart_no_quantity:
  assumes auth: "ctx_user c = Some u"
    and none: "findOne (\<lambda>d. c_user_id d = u_id u) (s_cart s) = None"
    and absent: "ci_quantity inp = Undefined"
  shows "fst (addProductToCart c inp s) =
           Inr \<lparr>c_user_id = u_id u,
                c_products = [\<lparr>productId = ci_product_id inp, quantity = Some 1\<rparr>]\<rparr>"
  using none absent
  by (simp add: addProductToCart_def checkAuthentication_Some [OF auth] Let_def)

text \<open>
  A user whose cart is empty (no cart document yet, or a cart document without line
  items) adds product \<open>P\<close> with quantity 2 and then \<open>P\<close> again with quantity 3: the first
  call leaves the single line item for \<open>P\<close>, and the second call, which finds the cart,
  appends a second line item for \<open>P\<close> instead of raising the quantity of the first.
\<close>

lemma add_twice_leaves_two_line_items:
  assumes auth: "ctx_user c = Some u"
    and empty: "userCart s (u_id u) = None
                \<or> (\<exists>crt. userCart s (u_id u) = Some crt \<and> c_products crt = [])"
  shows "let s1 = snd (addProductToCart c \<lparr>ci_product_id = P, ci_quantity = Val 2\<rparr> s);
             (r2, s2) = addProductToCart c \<lparr>ci_product_id = P, ci_quantity = Val 3\<rparr> s1;
             twice = \<lparr>c_user_id = u_id u,
                      c_products = [\<lparr>productId = P, quantity = Some 2\<rparr>,
                                    \<lparr>productId = P, quantity = Some 3\<rparr>]\<rparr>
         in r2 = Inr twice \<and> userCart s2 (u_id u) = Some twice"
proof -
  let ?own = "\<lambda>d. c_user_id d = u_id u"
  let ?c1 = "\<lparr>c_user_id = u_id u, c_products = [\<lparr>productId = P, quantity = Some 2\<rparr>]\<rparr>"
  let ?c2 = "\<lparr>c_user_id = u_id u,
              c_products = [\<lparr>productId = P, quantity = Some 2\<rparr>,
                            \<lparr>productId = P, quantity = Some 3\<rparr>]\<rparr>"
  let ?s1 = "snd (addProductToCart c \<lparr>ci_product_id = P, ci_quantity = Val 2\<rparr> s)"
  note ca = checkAuthentication_Some [OF auth]
  have first: "\<exists>i. findOne ?own (s_cart ?s1) = Some (i, ?c1)"
  proof (cases "findOne ?own (s_cart s)")
    case None
    then have "findOne ?own (s_cart s @ [?c1]) = Some (length (s_cart s), ?c1)"
      by (intro findOne_snoc_new) simp_all
    with None show ?thesis
      by (simp add: addProductToCart_def ca Let_def)
  next
    case (Some a)
    obtain i crt where a: "a = (i, crt)" by (cases a)
    from Some a empty have ps: "c_products crt = []"
      by (auto simp: userCart_def)
    from Some a have own: "c_user_id crt = u_id u"
      by (auto dest: findOne_SomeD)
    have eq: "crt\<lparr>c_products := [\<lparr>productId = P, quantity = Some 2\<rparr>]\<rparr> = ?c1"
      using own by (cases crt) simp
    from Some a have "findOne ?own ((s_cart s)[i := ?c1]) = Some (i, ?c1)"
      by (intro findOne_update) simp_all
    with Some a ps eq show ?thesis
      by (simp add: addProductToCart_def ca Let_def)
  qed
  then obtain i where i: "findOne ?own (s_cart ?s1) = Some (i, ?c1)"
    by blast
  have upd: "findOne ?own ((s_cart ?s1)[i := ?c2]) = Some (i, ?c2)"
    using i by (intro findOne_update) simp_all
  have second: "addProductToCart c \<lparr>ci_product_id = P, ci_quantity = Val 3\<rparr> ?s1
                  = (Inr ?c2, ?s1\<lparr>s_cart := (s_cart ?s1)[i := ?c2]\<rparr>)"
    using addProductToCart_existing_cart_new_item [OF auth i] by (simp add: Let_def)
  show ?thesis
    using upd by (simp add: Let_def second userCart_def)
qed

text \<open>
  Claim C1, evaluated on the code. User \<open>u1\<close> has no cart document in the sample store
  and adds product \<open>p1\<close> with quantity 2 and then with quantity 3. The second call returns,
  and the store then holds for \<open>u1\<close>, a cart with two line items for \<open>p1\<close>, of quantities
  2 and 3, where the claim has one line item of quantity 5.
\<close>

theorem addProductToCart_twice_two_line_items:
  "userCart sample_store ''u1'' = None
   \<and> fst (addProductToCart \<lparr>ctx_user = Some alice\<rparr>
            \<lparr>ci_product_id = ''p1'', ci_quantity = Val 3\<rparr>
            (snd (addProductToCart \<lparr>ctx_user = Some alice\<rparr>
                    \<lparr>ci_product_id = ''p1'', ci_quantity = Val 2\<rparr> sample_store)))
       = Inr \<lparr>c_user_id = ''u1'',
              c_products = [\<lparr>productId = ''p1'', quantity = Some 2\<rparr>,
                            \<lparr>productId = ''p1'', quantity = Some 3\<rparr>]\<rparr>
   \<and> userCart
        (snd (addProductToCart \<lparr>ctx_user = Some alice\<rparr>
                \<lparr>ci_product_id = ''p1'', ci_quantity = Val 3\<rparr>
                (snd (addProductToCart \<lparr>ctx_user = Some alice\<rparr>
                        \<lparr>ci_product_id = ''p1'', ci_quantity = Val 2\<rparr> sample_store))))
        ''u1''
       = Some \<lparr>c_user_id = ''u1'',
               c_products = [\<lparr>productId = ''p1'', quantity = Some 2\<rparr>,
                             \<lparr>productId = ''p1'', quantity = Some 3\<rparr>]\<rparr>"
proof -
  have h1: "ctx_user \<lparr>ctx_user = Some alice\<rparr> = Some alice" by simp
  have id: "u_id alice = ''u1''" by (simp add: alice_def)
  have h2: "userCart sample_store ''u1'' = None"
    by (simp add: userCart_def findOne_def sample_store_def)
  then have h3: "userCart sample_store (u_id alice) = None
            \<or> (\<exists>crt. userCart sample_store (u_id alice) = Some crt \<and> c_products crt = [])"
    by (simp add: id)
  show ?thesis
    using add_twice_leaves_two_line_items [OF h1 h3, of "''p1''"] h2
    by (simp add: Let_def case_prod_beta id)
qed

text \<open>
  Claim C3, evaluated on the code. User \<open>u1\<close> has a cart with no line items and adds
  product \<open>p1\<close> without a quantity: the line item that is inserted has the quantity
  \<^verbatim>\<open>null\<close>, not 1.
\<close>

theorem addProductToCart_existing_cart_no_quantity:
  "fst (addProductToCart \<lparr>ctx_user = Some \<lparr>u_id = ''u1'', isInternal = False\<rparr>\<rparr>
          \<lparr>ci_product_id = ''p1'', ci_quantity = Undefined\<rparr>
          \<lparr>s_address = ([] :: unit address list),
           s_cart = [\<lparr>c_user_id = ''u1'', c_products = []\<rparr>],
           s_wishlist = [], s_product_review = ([] :: int product_review list)\<rparr>)
   = Inr \<lparr>c_user_id = ''u1'', c_products = [\<lparr>productId = ''p1'', quantity = None\<rparr>]\<rparr>"
  by (simp add: addProductToCart_def checkAuthentication_def findOne_def Let_def)

text \<open>
  Claim C7. When the user's cart holds no line item for the product (or the user has no
  cart document at all), \<^verbatim>\<open>removeProductFromCart\<close> raises no error, returns the user's
  cart as it was, and leaves the whole store as it was.
\<close>

theorem remove_absent_product_is_noop:
  assumes auth: "ctx_user c = Some u"
    and absent: "\<forall>crt. userCart s (u_id u) = Some crt \<longrightarrow>
                   P \<notin> productId ` set (c_products crt)"
  shows "removeProductFromCart c P s = (Inr (userCart s (u_id u)), s)"
proof (cases "findOne (\<lambda>d. c_user_id d = u_id u) (s_cart s)")
  case None
  then show ?thesis
    by (simp add: removeProductFromCart_def checkAuthentication_Some [OF auth] userCart_def)
next
  case (Some a)
  obtain i crt where a: "a = (i, crt)" by (cases a)
  from Some a absent have "\<forall>x \<in> set (c_products crt). productId x \<noteq> P"
    by (auto simp: userCart_def)
  then have keep: "filter (\<lambda>x. productId x \<noteq> P) (c_products crt) = c_products crt"
    by (simp add: filter_id_conv)
  from Some a have at: "i < length (s_cart s)" "crt = s_cart s ! i"
    by (auto dest: findOne_SomeD)
  then have same: "(s_cart s)[i := crt] = s_cart s"
    by simp
  from Some a keep same show ?thesis
    by (simp add: removeProductFromCart_def checkAuthentication_Some [OF auth] userCart_def)
qed

text \<open>
  User \<open>u2\<close> has a cart that holds \<open>p1\<close> only; removing \<open>p5\<close> returns that cart and
  the store is the sample store.
\<close>

theorem remove_absent_product_is_noop_witness:
  "ctx_user \<lparr>ctx_user = Some bob\<rparr> = Some bob
   \<and> userCart sample_store (u_id bob)
       = Some \<lparr>c_user_id = ''u2'',
               c_products = [\<lparr>productId = ''p1'', quantity = Some 7\<rparr>]\<rparr>
   \<and> removeProductFromCart \<lparr>ctx_user = Some bob\<rparr> ''p5'' sample_store
       = (Inr (Some \<lparr>c_user_id = ''u2'',
                     c_products = [\<lparr>productId = ''p1'', quantity = Some 7\<rparr>]\<rparr>),
          sample_store)"
proof -
  have h1: "ctx_user \<lparr>ctx_user = Some bob\<rparr> = Some bob" by simp
  have h2: "userCart sample_store (u_id bob)
              = Some \<lparr>c_user_id = ''u2'',
                      c_products = [\<lparr>productId = ''p1'', quantity = Some 7\<rparr>]\<rparr>"
    by (simp add: userCart_def findOne_def sample_store_def bob_def)
  have h3: "\<forall>crt. userCart sample_store (u_id bob) = Some crt \<longrightarrow>
              ''p5'' \<notin> productId ` set (c_products crt)"
    by (auto simp: h2)
  show ?thesis
    using remove_absent_product_is_noop [OF h1 h3] h2 by simp
qed

section \<open>The wishlist\<close>

text \<open>
  Claim C10. \<^verbatim>\<open>addProductToWishlist\<close> appends the product without looking for it in
  the list: after two calls with the same product by an authenticated user, the user's
  wishlist is the list it was before (empty when there was no wishlist) followed by the
  product twice.
\<close>

theorem wishlist_add_twice_repeats:
  assumes auth: "ctx_user c = Some u"
  shows "let s1 = snd (addProductToWishlist c P s);
             (r2, s2) = addProductToWishlist c P s1;
             w2 = \<lparr>w_user_id = u_id u,
                   w_products =
                     (case userWishlist s (u_id u) of None \<Rightarrow> [] | Some w \<Rightarrow> w_products w)
                     @ [P, P]\<rparr>
         in r2 = Inr w2 \<and> userWishlist s2 (u_id u) = Some w2"
proof -
  let ?own = "\<lambda>d. w_user_id d = u_id u"
  let ?old = "case userWishlist s (u_id u) of None \<Rightarrow> [] | Some w \<Rightarrow> w_products w"
  let ?w1 = "\<lparr>w_user_id = u_id u, w_products = ?old @ [P]\<rparr>"
  let ?w2 = "\<lparr>w_user_id = u_id u, w_products = ?old @ [P, P]\<rparr>"
  let ?s1 = "snd (addProductToWishlist c P s)"
  note ca = checkAuthentication_Some [OF auth]
  have first: "\<exists>i. findOne ?own (s_wishlist ?s1) = Some (i, ?w1)"
  proof (cases "findOne ?own (s_wishlist s)")
    case None
    then have "findOne ?own (s_wishlist s @ [\<lparr>w_user_id = u_id u, w_products = [P]\<rparr>])
                 = Some (length (s_wishlist s), \<lparr>w_user_id = u_id u, w_products = [P]\<rparr>)"
      by (intro findOne_snoc_new) simp_all
    with None show ?thesis
      by (simp add: addProductToWishlist_def ca Let_def userWishlist_def)
  next
    case (Some a)
    obtain i w where a: "a = (i, w)" by (cases a)
    from Some a have own: "w_user_id w = u_id u"
      by (auto dest: findOne_SomeD)
    from Some a have old: "?old = w_products w"
      by (simp add: userWishlist_def)
    have eq: "w\<lparr>w_products := w_products w @ [P]\<rparr> = ?w1"
      using own old by (cases w) simp
    from Some a have "findOne ?own ((s_wishlist s)[i := ?w1]) = Some (i, ?w1)"
      by (intro findOne_update) simp_all
    with Some a eq show ?thesis
      by (simp add: addProductToWishlist_def ca Let_def)
  qed
  then obtain i where i: "findOne ?own (s_wishlist ?s1) = Some (i, ?w1)"
    by blast
  have upd: "findOne ?own ((s_wishlist ?s1)[i := ?w2]) = Some (i, ?w2)"
    using i by (intro findOne_update) simp_all
  have second: "addProductToWishlist c P ?s1
                  = (Inr ?w2, ?s1\<lparr>s_wishlist := (s_wishlist ?s1)[i := ?w2]\<rparr>)"
    using i by (simp add: addProductToWishlist_def ca Let_def)
  show ?thesis
    using upd by (simp add: Let_def second userWishlist_def)
qed

text \<open>User \<open>u1\<close> has \<open>p9\<close> on the wishlist and adds \<open>p7\<close> twice.\<close>

theorem wishlist_add_twice_repeats_witness:
  "ctx_user \<lparr>ctx_user = Some alice\<rparr> = Some alice
   \<and> userWishlist sample_store ''u1'' = Some \<lparr>w_user_id = ''u1'', w_products = [''p9'']\<rparr>
   \<and> userWishlist
        (snd (addProductToWishlist \<lparr>ctx_user = Some alice\<rparr> ''p7''
                (snd (addProductToWishlist \<lparr>ctx_user = Some alice\<rparr> ''p7'' sample_store))))
        ''u1''
       = Some \<lparr>w_user_id = ''u1'', w_products = [''p9'', ''p7'', ''p7'']\<rparr>"
proof -
  have h1: "ctx_user \<lparr>ctx_user = Some alice\<rparr> = Some alice" by simp
  have h2: "userWishlist sample_store ''u1''
              = Some \<lparr>w_user_id = ''u1'', w_products = [''p9'']\<rparr>"
    by (simp add: userWishlist_def findOne_def sample_store_def)
  have id: "u_id alice = ''u1''" by (simp add: alice_def)
  show ?thesis
    using wishlist_add_twice_repeats [OF h1, of "''p7''" sample_store] h2
    by (simp add: Let_def case_prod_beta id)
qed

section \<open>Reviews\<close>

text \<open>
  Claim C5. In a store that holds at most one review by user \<open>U\<close> for product \<open>P\<close>, two
  calls of \<^verbatim>\<open>addProductReview\<close> by \<open>U\<close> for \<open>P\<close> leave exactly one review for the pair,
  and its text and score are those of the second call.
\<close>

theorem review_twice_keeps_one_latest:
  assumes auth: "ctx_user c = Some u"
    and inv: "length (reviewsOf s (u_id u) P) \<le> 1"
  shows "let s1 = snd (addProductReview c
                         \<lparr>ri_review = t1, ri_score = sc1, ri_product_id = P\<rparr> s);
             (r2, s2) = addProductReview c
                          \<lparr>ri_review = t2, ri_score = sc2, ri_product_id = P\<rparr> s1;
             latest = \<lparr>r_user_id = u_id u, r_product_id = P,
                       r_review = t2, r_score = sc2\<rparr>
         in r2 = Inr latest \<and> reviewsOf s2 (u_id u) P = [latest]"
proof -
  let ?m = "\<lambda>d. r_user_id d = u_id u \<and> r_product_id d = P"
  let ?d1 = "\<lparr>r_user_id = u_id u, r_product_id = P, r_review = t1, r_score = sc1\<rparr>"
  let ?d2 = "\<lparr>r_user_id = u_id u, r_product_id = P, r_review = t2, r_score = sc2\<rparr>"
  let ?s1 = "snd (addProductReview c \<lparr>ri_review = t1, ri_score = sc1, ri_product_id = P\<rparr> s)"
  note ca = checkAuthentication_Some [OF auth]
  have first: "\<exists>i. findOne ?m (s_product_review ?s1) = Some (i, ?d1)
                 \<and> length (filter ?m (s_product_review ?s1)) \<le> 1"
  proof (cases "findOne ?m (s_product_review s)")
    case None
    then have none: "filter ?m (s_product_review s) = []"
      by (simp add: findOne_None_iff filter_empty_conv)
    from None have "findOne ?m (s_product_review s @ [?d1])
                      = Some (length (s_product_review s), ?d1)"
      by (intro findOne_snoc_new) simp_all
    with None none show ?thesis
      by (simp add: addProductReview_def ca Let_def)
  next
    case (Some a)
    obtain i d where a: "a = (i, d)" by (cases a)
    from Some a have at: "i < length (s_product_review s)" "d = s_product_review s ! i" "?m d"
      by (auto dest: findOne_SomeD)
    have eq: "d\<lparr>r_review := t1, r_score := sc1\<rparr> = ?d1"
      using at(3) by (cases d) simp
    from Some a have f: "findOne ?m ((s_product_review s)[i := ?d1]) = Some (i, ?d1)"
      by (intro findOne_update) simp_all
    from at inv have "filter ?m ((s_product_review s)[i := ?d1]) = [?d1]"
      by (intro filter_update_single) (simp_all add: reviewsOf_def)
    with Some a eq f show ?thesis
      by (simp add: addProductReview_def ca Let_def)
  qed
  then obtain i where i: "findOne ?m (s_product_review ?s1) = Some (i, ?d1)"
    and one: "length (filter ?m (s_product_review ?s1)) \<le> 1"
    by blast
  from i have at: "i < length (s_product_review ?s1)" "?m (s_product_review ?s1 ! i)"
    by (auto dest: findOne_SomeD)
  have single: "filter ?m ((s_product_review ?s1)[i := ?d2]) = [?d2]"
    using at one by (intro filter_update_single) simp_all
  have second: "addProductReview c \<lparr>ri_review = t2, ri_score = sc2, ri_product_id = P\<rparr> ?s1
                  = (Inr ?d2, ?s1\<lparr>s_product_review := (s_product_review ?s1)[i := ?d2]\<rparr>)"
    using i by (simp add: addProductReview_def ca Let_def)
  show ?thesis
    using single by (simp add: Let_def second reviewsOf_def)
qed

text \<open>
  User \<open>u1\<close> has one review of \<open>p1\<close> in the sample store and reviews it twice more: one
  review is left, with the text and score of the last call.
\<close>

theorem review_twice_keeps_one_latest_witness:
  "ctx_user \<lparr>ctx_user = Some alice\<rparr> = Some alice
   \<and> length (reviewsOf sample_store ''u1'' ''p1'') = 1
   \<and> reviewsOf
        (snd (addProductReview \<lparr>ctx_user = Some alice\<rparr>
                \<lparr>ri_review = ''great'', ri_score = 5, ri_product_id = ''p1''\<rparr>
                (snd (addProductReview \<lparr>ctx_user = Some alice\<rparr>
                        \<lparr>ri_review = ''good'', ri_score = 4, ri_product_id = ''p1''\<rparr>
                        sample_store))))
        ''u1'' ''p1''
       = [\<lparr>r_user_id = ''u1'', r_product_id = ''p1'', r_review = ''great'', r_score = 5\<rparr>]"
proof -
  have h1: "ctx_user \<lparr>ctx_user = Some alice\<rparr> = Some alice" by simp
  have id: "u_id alice = ''u1''" by (simp add: alice_def)
  have h2: "length (reviewsOf sample_store ''u1'' ''p1'') = 1"
    by (simp add: reviewsOf_def sample_store_def)
  then have h3: "length (reviewsOf sample_store (u_id alice) ''p1'') \<le> 1"
    by (simp add: id)
  show ?thesis
    using review_twice_keeps_one_latest [OF h1 h3, of "''good''" 4 "''great''" 5] h2
    by (simp add: Let_def case_prod_beta id)
qed

text \<open>
  The hypothesis of the theorem is an invariant of the upsert: a call by anyone, for any
  product, keeps "at most one review" for every pair.
\<close>

lemma addProductReview_keeps_at_most_one:
  assumes inv: "length (reviewsOf s uid pid) \<le> 1"
  shows "length (reviewsOf (snd (addProductReview c inp s)) uid pid) \<le> 1"
proof (cases "ctx_user c")
  case None
  with inv show ?thesis
    by (simp add: addProductReview_def checkAuthentication_None)
next
  case (Some u)
  note ca = checkAuthentication_Some [OF Some]
  let ?m = "\<lambda>d. r_user_id d = u_id u \<and> r_product_id d = ri_product_id inp"
  show ?thesis
  proof (cases "findOne ?m (s_product_review s)")
    case None
    then have none: "filter ?m (s_product_review s) = []"
      by (simp add: findOne_None_iff filter_empty_conv)
    with None inv show ?thesis
      by (auto simp: addProductReview_def ca Let_def reviewsOf_def)
  next
    case (Some a)
    obtain i d where a: "a = (i, d)" by (cases a)
    from Some a have at: "i < length (s_product_review s)" "d = s_product_review s ! i"
      by (auto dest: findOne_SomeD)
    let ?k = "\<lambda>d. r_user_id d = uid \<and> r_product_id d = pid"
    have "length (filter ?k ((s_product_review s)
                   [i := d\<lparr>r_review := ri_review inp, r_score := ri_score inp\<rparr>]))
            = length (filter ?k (s_product_review s))"
      using at by (intro length_filter_update_same) simp_all
    with Some a inv show ?thesis
      by (simp add: addProductReview_def ca Let_def reviewsOf_def)
  qed
qed

section \<open>The products query\<close>

subsection \<open>The resolver as a pure function of the request\<close>

lemma those_eq_Some_iff: "those xs = Some ys \<longleftrightarrow> xs = map Some ys"
  by (induction xs arbitrary: ys) (auto split: option.splits)

lemma those_map_None_iff:
  "those (map f cs) = None \<longleftrightarrow> \<not> list_all (\<lambda>c. f c \<noteq> None) cs"
  by (induction cs) (auto split: option.splits)

lemma case_None_Some: "(case x of None \<Rightarrow> None | Some s \<Rightarrow> Some s) = x"
  by (cases x) simp_all

lemma assign_name:
  "(case x of None \<Rightarrow> f | Some s \<Rightarrow> f\<lparr>pf_name := Some (s, ''i'')\<rparr>)
     = f\<lparr>pf_name := (case x of None \<Rightarrow> pf_name f | Some s \<Rightarrow> Some (s, ''i''))\<rparr>"
  by (cases x) simp_all

lemma assign_size:
  "(case x of None \<Rightarrow> f | Some s \<Rightarrow> f\<lparr>pf_size := Some s\<rparr>)
     = f\<lparr>pf_size := (case x of None \<Rightarrow> pf_size f | Some s \<Rightarrow> Some s)\<rparr>"
  by (cases x) simp_all

lemma assign_color:
  "(case x of None \<Rightarrow> f | Some s \<Rightarrow> f\<lparr>pf_color := Some s\<rparr>)
     = f\<lparr>pf_color := (case x of None \<Rightarrow> pf_color f | Some s \<Rightarrow> Some s)\<rparr>"
  by (cases x) simp_all

lemma assign_code:
  "(case x of None \<Rightarrow> f | Some s \<Rightarrow> f\<lparr>pf_code := Some s\<rparr>)
     = f\<lparr>pf_code := (case x of None \<Rightarrow> pf_code f | Some s \<Rightarrow> Some s)\<rparr>"
  by (cases x) simp_all

lemma assign_keywords:
  "(case x of None \<Rightarrow> f | Some s \<Rightarrow> f\<lparr>pf_keywords := Some s\<rparr>)
     = f\<lparr>pf_keywords := (case x of None \<Rightarrow> pf_keywords f | Some s \<Rightarrow> Some s)\<rparr>"
  by (cases x) simp_all

lemma assign_price:
  "(if mn \<noteq> Undefined \<or> mx \<noteq> Undefined
    then (let price0 = \<lparr>p_gte = Undefined, p_lte = Undefined\<rparr>;
              price1 = (if mn \<noteq> Undefined then price0\<lparr>p_gte := mn\<rparr> else price0);
              price2 = (if mx \<noteq> Undefined then price1\<lparr>p_lte := mx\<rparr> else price1)
          in f\<lparr>pf_price := Some price2\<rparr>)
    else f)
   = f\<lparr>pf_price := (if mn \<noteq> Undefined \<or> mx \<noteq> Undefined
                     then Some \<lparr>p_gte = mn, p_lte = mx\<rparr> else pf_price f)\<rparr>"
  by (simp add: Let_def)

lemmas assigns = assign_name assign_size assign_color assign_code assign_keywords

text \<open>
  What the resolver computes for a request object, in one expression: it throws when a
  coercion fails, it throws at the assignment to \<^verbatim>\<open>limit\<close> or \<^verbatim>\<open>start\<close> when one of
  them is supplied, and otherwise every key of the filter is a function of the field of
  the same name.
\<close>

lemma products_Some:
  "products objectId (Some a) =
     (if \<not> coercible objectId a then Inl InvalidObjectId
      else if f_lim a \<noteq> Undefined \<or> f_strt a \<noteq> Undefined then Inl ConstAssignment
      else Inr \<lparr>q_filter =
                  \<lparr>pf_id = (case truthy_val (f_id a) of None \<Rightarrow> None | Some s \<Rightarrow> objectId s),
                   pf_name = (case truthy_val (f_name a) of
                                None \<Rightarrow> None | Some s \<Rightarrow> Some (s, ''i'')),
                   pf_size = truthy_val (f_size a),
                   pf_color = truthy_val (f_color a),
                   pf_code = truthy_val (f_code a),
                   pf_categories = (case nonempty_arr (f_categories a) of
                                      None \<Rightarrow> None | Some cs \<Rightarrow> those (map objectId cs)),
                   pf_keywords = nonempty_arr (f_keywords a),
                   pf_price = (if f_minPrice a \<noteq> Undefined \<or> f_maxPrice a \<noteq> Undefined
                               then Some \<lparr>p_gte = f_minPrice a, p_lte = f_maxPrice a\<rparr>
                               else None)\<rparr>,
                q_limit = 10, q_skip = 0,
                q_sort = (case f_sortOption a of
                            Val so \<Rightarrow> [(so_field so, if so_order so = ''asc'' then 1 else - 1)]
                          | _ \<Rightarrow> [])\<rparr>)"
proof -
  note defs = products_def Let_def assigns assign_price [unfolded Let_def]
  show ?thesis
  proof (cases "truthy_val (f_id a)")
    case None
    show ?thesis
    proof (cases "nonempty_arr (f_categories a)")
      case n: None
      show ?thesis
        unfolding defs
        by (simp add: None n coercible_def empty_filter_def case_None_Some
            cong: option.case_cong)
    next
      case (Some cs)
      show ?thesis
      proof (cases "those (map objectId cs)")
        case n: None
        then have "\<not> coercible objectId a"
          using those_map_None_iff [of objectId cs] by (simp add: coercible_def Some)
        then show ?thesis
          unfolding defs by (simp add: None Some n)
      next
        case s: (Some ids)
        then have "coercible objectId a"
          using those_map_None_iff [of objectId cs] by (simp add: coercible_def None Some)
        then show ?thesis
          unfolding defs
          by (simp add: None Some s empty_filter_def case_None_Some
              cong: option.case_cong)
      qed
    qed
  next
    case (Some s)
    note id = Some
    show ?thesis
    proof (cases "objectId s")
      case None
      then have "\<not> coercible objectId a"
        by (simp add: coercible_def id)
      then show ?thesis
        unfolding defs by (simp add: id None)
    next
      case (Some i)
      note oid = Some
      show ?thesis
      proof (cases "nonempty_arr (f_categories a)")
        case None
        have "coercible objectId a"
          by (simp add: coercible_def id oid None)
        then show ?thesis
          unfolding defs
          by (simp add: id oid None empty_filter_def case_None_Some
              cong: option.case_cong)
      next
        case (Some cs)
        show ?thesis
        proof (cases "those (map objectId cs)")
          case n: None
          then have "\<not> coercible objectId a"
            using those_map_None_iff [of objectId cs] by (simp add: coercible_def Some)
          then show ?thesis
            unfolding defs by (simp add: id oid Some n)
        next
          case t: (Some ids)
          then have "coercible objectId a"
            using those_map_None_iff [of objectId cs]
            by (simp add: coercible_def id oid Some)
          then show ?thesis
            unfolding defs
            by (simp add: id oid Some t empty_filter_def case_None_Some
                cong: option.case_cong)
        qed
      qed
    qed
  qed
qed


lemma products_None:
  "products objectId None =
     Inr \<lparr>q_filter = empty_filter, q_limit = 10, q_skip = 0, q_sort = []\<rparr>"
  by (simp add: products_def)

lemma products_completes:
  "f_lim a = Undefined \<Longrightarrow> f_strt a = Undefined \<Longrightarrow> coercible objectId a \<Longrightarrow>
     \<exists>q. products objectId (Some a) = Inr q"
  by (simp add: products_Some)

lemma products_completes_only_without_pagination:
  assumes "products objectId flt = Inr q"
  shows "flt = None \<or> (\<exists>a. flt = Some a \<and> f_lim a = Undefined \<and> f_strt a = Undefined)"
  using assms by (cases flt) (auto simp: products_Some split: if_splits)

text \<open>Two runs of the identifier constructor used in the concrete requests below.\<close>

lemma hexObjectId_sample:
  "hexObjectId ''64b7f3a2c9e1d4f5a6b7c8d9'' = Some ''64b7f3a2c9e1d4f5a6b7c8d9''"
  by (simp add: hexObjectId_def)

lemma hexObjectId_zz: "hexObjectId ''zz'' = None"
  by (simp add: hexObjectId_def)

subsection \<open>Pagination\<close>

text \<open>
  Claim C2, as amended. A request that supplies \<^verbatim>\<open>limit\<close> or \<^verbatim>\<open>start\<close> never
  completes, so the supplied pagination is never applied: the resolver throws the
  \<^verbatim>\<open>TypeError\<close> of the assignment to a \<^verbatim>\<open>const\<close> binding when the coercions of
  \<^verbatim>\<open>_id\<close> and \<^verbatim>\<open>categories\<close> succeed, and the coercion's error, thrown earlier,
  when one of them fails.
\<close>

theorem products_pagination_never_applied:
  assumes "f_lim a \<noteq> Undefined \<or> f_strt a \<noteq> Undefined"
  shows "products objectId (Some a) =
           (if coercible objectId a then Inl ConstAssignment else Inl InvalidObjectId)
         \<and> (\<forall>q. products objectId (Some a) \<noteq> Inr q)"
  using assms by (simp add: products_Some)

text \<open>
  A request with a well-formed \<^verbatim>\<open>_id\<close> and \<^verbatim>\<open>limit: 5\<close> stops at the assignment to
  \<^verbatim>\<open>limit\<close>.
\<close>

theorem products_pagination_never_applied_witness:
  "f_lim ((no_fields :: int filter_input)
            \<lparr>f_id := Val ''64b7f3a2c9e1d4f5a6b7c8d9'', f_lim := Val 5\<rparr>) = Val 5
   \<and> coercible hexObjectId
        ((no_fields :: int filter_input)
           \<lparr>f_id := Val ''64b7f3a2c9e1d4f5a6b7c8d9'', f_lim := Val 5\<rparr>)
   \<and> products hexObjectId
        (Some ((no_fields :: int filter_input)
                 \<lparr>f_id := Val ''64b7f3a2c9e1d4f5a6b7c8d9'', f_lim := Val 5\<rparr>))
       = Inl ConstAssignment"
proof -
  let ?a = "(no_fields :: int filter_input)
              \<lparr>f_id := Val ''64b7f3a2c9e1d4f5a6b7c8d9'', f_lim := Val 5\<rparr>"
  have h1: "f_lim ?a = Val 5" by simp
  then have h2: "f_lim ?a \<noteq> Undefined \<or> f_strt ?a \<noteq> Undefined" by simp
  have h3: "coercible hexObjectId ?a"
    by (simp add: coercible_def no_fields_def hexObjectId_sample)
  show ?thesis
    using products_pagination_never_applied [OF h2, of hexObjectId] h1 h3 by simp
qed

text \<open>
  Claim C2 as it was stated names the assignment to a \<^verbatim>\<open>const\<close> binding as the error of
  every request that supplies \<^verbatim>\<open>limit\<close> or \<^verbatim>\<open>start\<close>. The request
  \<^verbatim>\<open>{ _id: "zz", limit: 5 }\<close> supplies \<^verbatim>\<open>limit\<close> and fails earlier, in the coercion of
  \<^verbatim>\<open>_id\<close>, with that coercion's error.
\<close>

theorem products_pagination_error_counterexample:
  "f_lim ((no_fields :: int filter_input)\<lparr>f_id := Val ''zz'', f_lim := Val 5\<rparr>) = Val 5
   \<and> products hexObjectId
        (Some ((no_fields :: int filter_input)\<lparr>f_id := Val ''zz'', f_lim := Val 5\<rparr>))
       = Inl InvalidObjectId
   \<and> products hexObjectId
        (Some ((no_fields :: int filter_input)\<lparr>f_id := Val ''zz'', f_lim := Val 5\<rparr>))
       \<noteq> Inl ConstAssignment"
  by (simp add: products_Some coercible_def hexObjectId_zz no_fields_def)

text \<open>
  Claim C8. For a request without \<^verbatim>\<open>limit\<close> and \<^verbatim>\<open>start\<close>, and for an absent filter,
  every read the resolver compiles has limit 10 and offset 0; and it does compile a read
  whenever the coercions of the request succeed.
\<close>

theorem products_default_pagination:
  assumes "flt = None \<or> (\<exists>a. flt = Some a \<and> f_lim a = Undefined \<and> f_strt a = Undefined)"
  shows "(\<forall>q. products objectId flt = Inr q \<longrightarrow> q_limit q = 10 \<and> q_skip q = 0)
         \<and> ((\<forall>a. flt = Some a \<longrightarrow> coercible objectId a)
              \<longrightarrow> (\<exists>q. products objectId flt = Inr q))"
  using assms by (cases flt) (auto simp: products_Some products_None split: if_splits)

text \<open>A request for the name \<^verbatim>\<open>shirt\<close> alone compiles to a read with limit 10, offset 0.\<close>

theorem products_default_pagination_witness:
  "f_lim ((no_fields :: int filter_input)\<lparr>f_name := Val ''shirt''\<rparr>) = Undefined
   \<and> f_strt ((no_fields :: int filter_input)\<lparr>f_name := Val ''shirt''\<rparr>) = Undefined
   \<and> (\<exists>q. products hexObjectId (Some ((no_fields :: int filter_input)\<lparr>f_name := Val ''shirt''\<rparr>))
              = Inr q \<and> q_limit q = 10 \<and> q_skip q = 0)"
proof -
  let ?a = "(no_fields :: int filter_input)\<lparr>f_name := Val ''shirt''\<rparr>"
  have h1: "f_lim ?a = Undefined" "f_strt ?a = Undefined"
    by (simp_all add: no_fields_def)
  then have h2: "Some ?a = None \<or> (\<exists>a. Some ?a = Some a \<and> f_lim a = Undefined \<and> f_strt a = Undefined)"
    by simp
  have h3: "\<forall>a. Some ?a = Some a \<longrightarrow> coercible hexObjectId a"
    by (simp add: coercible_def no_fields_def)
  from products_default_pagination [OF h2, of hexObjectId] h3
  have "\<exists>q. products hexObjectId (Some ?a) = Inr q" 
    and "\<forall>q. products hexObjectId (Some ?a) = Inr q \<longrightarrow> q_limit q = 10 \<and> q_skip q = 0"
    by blast+
  with h1 show ?thesis by blast
qed

subsection \<open>Clauses of the compiled filter\<close>

text \<open>
  Claim C6. In every read the resolver compiles, a non-empty \<^verbatim>\<open>categories\<close> array has
  become the clause \<^verbatim>\<open>$in\<close> over the coerced identifiers and a non-empty \<^verbatim>\<open>keywords\<close>
  array the clause \<^verbatim>\<open>$in\<close> over the keywords; an empty array has left no clause on its
  field, and the resolver's result for an empty array is its result for the request with
  the field absent.
\<close>

theorem products_membership_clauses:
  assumes "products objectId (Some a) = Inr q"
  shows "(\<forall>cs. f_categories a = Val cs \<and> cs \<noteq> [] \<longrightarrow>
            (\<exists>ids. map objectId cs = map Some ids
                   \<and> pf_categories (q_filter q) = Some ids))
       \<and> (\<forall>ks. f_keywords a = Val ks \<and> ks \<noteq> [] \<longrightarrow> pf_keywords (q_filter q) = Some ks)
       \<and> (f_categories a = Val [] \<longrightarrow> pf_categories (q_filter q) = None)
       \<and> (f_keywords a = Val [] \<longrightarrow> pf_keywords (q_filter q) = None)
       \<and> products objectId (Some (a\<lparr>f_categories := Val []\<rparr>))
           = products objectId (Some (a\<lparr>f_categories := Undefined\<rparr>))
       \<and> products objectId (Some (a\<lparr>f_keywords := Val []\<rparr>))
           = products objectId (Some (a\<lparr>f_keywords := Undefined\<rparr>))"
proof -
  from assms have co: "coercible objectId a"
    and q: "pf_categories (q_filter q) =
              (case nonempty_arr (f_categories a) of
                 None \<Rightarrow> None | Some cs \<Rightarrow> those (map objectId cs))"
           "pf_keywords (q_filter q) = nonempty_arr (f_keywords a)"
    by (auto simp: products_Some split: if_splits)
  have cats: "\<exists>ids. map objectId cs = map Some ids \<and> pf_categories (q_filter q) = Some ids"
    if "f_categories a = Val cs" "cs \<noteq> []" for cs
  proof -
    from that co have "those (map objectId cs) \<noteq> None"
      by (simp add: coercible_def those_map_None_iff)
    then obtain ids where "those (map objectId cs) = Some ids" by blast
    with that q(1) show ?thesis
      by (auto simp: those_eq_Some_iff)
  qed
  have same_c: "products objectId (Some (a\<lparr>f_categories := Val []\<rparr>))
                  = products objectId (Some (a\<lparr>f_categories := Undefined\<rparr>))"
    by (simp add: products_Some coercible_def)
  have same_k: "products objectId (Some (a\<lparr>f_keywords := Val []\<rparr>))
                  = products objectId (Some (a\<lparr>f_keywords := Undefined\<rparr>))"
    by (simp add: products_Some coercible_def)
  from cats q same_c same_k show ?thesis
    by simp
qed

text \<open>
  A request with one category and two keywords compiles to the two \<^verbatim>\<open>$in\<close> clauses;
  with the categories emptied, the compiled filter has no clause on \<^verbatim>\<open>categories\<close>.
\<close>

theorem products_membership_clauses_witness:
  "(let a = (no_fields :: int filter_input)
              \<lparr>f_categories := Val [''64b7f3a2c9e1d4f5a6b7c8d9''],
               f_keywords := Val [''summer'', ''sale'']\<rparr>;
        q = \<lparr>q_filter = empty_filter
                \<lparr>pf_categories := Some [''64b7f3a2c9e1d4f5a6b7c8d9''],
                 pf_keywords := Some [''summer'', ''sale'']\<rparr>,
              q_limit = 10, q_skip = 0, q_sort = []\<rparr>
    in products hexObjectId (Some a) = Inr q
       \<and> pf_categories (q_filter q) = Some [''64b7f3a2c9e1d4f5a6b7c8d9'']
       \<and> pf_keywords (q_filter q) = Some [''summer'', ''sale'']
       \<and> products hexObjectId (Some (a\<lparr>f_categories := Val []\<rparr>))
           = products hexObjectId (Some (a\<lparr>f_categories := Undefined\<rparr>))
       \<and> pf_categories (q_filter
            (projr (products hexObjectId (Some (a\<lparr>f_categories := Val []\<rparr>))))) = None)"
proof -
  let ?a = "(no_fields :: int filter_input)
              \<lparr>f_categories := Val [''64b7f3a2c9e1d4f5a6b7c8d9''],
               f_keywords := Val [''summer'', ''sale'']\<rparr>"
  let ?q = "\<lparr>q_filter = (empty_filter :: (string, int) product_filter)
                \<lparr>pf_categories := Some [''64b7f3a2c9e1d4f5a6b7c8d9''],
                 pf_keywords := Some [''summer'', ''sale'']\<rparr>,
              q_limit = 10, q_skip = 0, q_sort = []\<rparr>"
  have h: "products hexObjectId (Some ?a) = Inr ?q"
    by (simp add: products_Some coercible_def no_fields_def empty_filter_def
        hexObjectId_sample)
  have e: "pf_categories (q_filter
            (projr (products hexObjectId (Some (?a\<lparr>f_categories := Val []\<rparr>))))) = None"
    by (simp add: products_Some coercible_def no_fields_def)
  show ?thesis
    unfolding Let_def
    using products_membership_clauses [OF h] h e by simp
qed

text \<open>
  Claim C9. In every read the resolver compiles, \<^verbatim>\<open>minPrice\<close> and \<^verbatim>\<open>maxPrice\<close> have
  become the bounds \<^verbatim>\<open>$gte\<close> and \<^verbatim>\<open>$lte\<close> of the price clause, which a price satisfies
  exactly when it lies between them, both ends included; each bound alone gives the
  one-sided clause. A request with \<^verbatim>\<open>minPrice\<close> and nothing else compiles to a filter
  whose only clause is the lower bound, so every product priced at \<^verbatim>\<open>minPrice\<close> or more
  matches it.
\<close>

theorem products_price_bounds:
  fixes lo hi p :: "'n::linorder"
  assumes "products objectId (Some a) = Inr q"
  shows "(f_minPrice a = Val lo \<and> f_maxPrice a = Val hi \<longrightarrow>
            pf_price (q_filter q) = Some \<lparr>p_gte = Val lo, p_lte = Val hi\<rparr>
            \<and> (price_matches (pf_price (q_filter q)) p \<longleftrightarrow> lo \<le> p \<and> p \<le> hi))
       \<and> (f_minPrice a = Val lo \<and> f_maxPrice a = Undefined \<longrightarrow>
            pf_price (q_filter q) = Some \<lparr>p_gte = Val lo, p_lte = Undefined\<rparr>
            \<and> (price_matches (pf_price (q_filter q)) p \<longleftrightarrow> lo \<le> p))
       \<and> (f_minPrice a = Undefined \<and> f_maxPrice a = Val hi \<longrightarrow>
            pf_price (q_filter q) = Some \<lparr>p_gte = Undefined, p_lte = Val hi\<rparr>
            \<and> (price_matches (pf_price (q_filter q)) p \<longleftrightarrow> p \<le> hi))
       \<and> products objectId (Some (no_fields\<lparr>f_minPrice := Val lo\<rparr>))
           = Inr \<lparr>q_filter = empty_filter\<lparr>pf_price :=
                               Some \<lparr>p_gte = Val lo, p_lte = Undefined\<rparr>\<rparr>,
                  q_limit = 10, q_skip = 0, q_sort = []\<rparr>"
proof -
  from assms have q: "pf_price (q_filter q) =
      (if f_minPrice a \<noteq> Undefined \<or> f_maxPrice a \<noteq> Undefined
       then Some \<lparr>p_gte = f_minPrice a, p_lte = f_maxPrice a\<rparr> else None)"
    by (auto simp: products_Some split: if_splits)
  have only: "products objectId (Some (no_fields\<lparr>f_minPrice := Val lo\<rparr>))
           = Inr \<lparr>q_filter = empty_filter\<lparr>pf_price :=
                               Some \<lparr>p_gte = Val lo, p_lte = Undefined\<rparr>\<rparr>,
                  q_limit = 10, q_skip = 0, q_sort = []\<rparr>"
    by (simp add: products_Some coercible_def no_fields_def empty_filter_def)
  from q only show ?thesis
    by (simp add: price_matches_def)
qed

text \<open>
  The request \<^verbatim>\<open>{ minPrice: 10, maxPrice: 50 }\<close>: the prices 10 and 50 satisfy the
  compiled clause, 9 and 51 do not.
\<close>

theorem products_price_bounds_witness:
  "(let a = (no_fields :: int filter_input)\<lparr>f_minPrice := Val 10, f_maxPrice := Val 50\<rparr>;
        q = \<lparr>q_filter = empty_filter
                \<lparr>pf_price := Some \<lparr>p_gte = Val 10, p_lte = Val 50\<rparr>\<rparr>,
              q_limit = 10, q_skip = 0, q_sort = []\<rparr>
    in products hexObjectId (Some a) = Inr q
       \<and> price_matches (pf_price (q_filter q)) 10
       \<and> price_matches (pf_price (q_filter q)) 50
       \<and> \<not> price_matches (pf_price (q_filter q)) 9
       \<and> \<not> price_matches (pf_price (q_filter q)) 51)"
proof -
  let ?a = "(no_fields :: int filter_input)\<lparr>f_minPrice := Val 10, f_maxPrice := Val 50\<rparr>"
  let ?q = "\<lparr>q_filter = (empty_filter :: (string, int) product_filter)
                \<lparr>pf_price := Some \<lparr>p_gte = Val 10, p_lte = Val 50\<rparr>\<rparr>,
              q_limit = 10, q_skip = 0, q_sort = []\<rparr>"
  have h: "products hexObjectId (Some ?a) = Inr ?q"
    by (simp add: products_Some coercible_def no_fields_def empty_filter_def)
  have m: "f_minPrice ?a = Val 10 \<and> f_maxPrice ?a = Val 50" by simp
  note t = products_price_bounds [OF h, of 10 50]
  from t [of 10] t [of 50] t [of 9] t [of 51] m h show ?thesis
    unfolding Let_def by simp
qed

end
